theory Spec2Isabelle
  imports Complex_Main "HOL-Library.Word" "HOL-Library.Signed_Division" "HOL-Library.Log_Nat"
begin

section \<open>Kitchen model (kitchen.hpp, kitchen.cpp)\<close>

text \<open>
  Shallow embedding of the kitchen classes. Conventions:
  \<^item> a C++ \<open>int\<close> is a 32-bit two's complement word (\<open>cint\<close>); \<open>sint\<close> reads its value
    and every comparison of the source is a comparison of \<open>sint\<close> values; \<open>+\<close>, \<open>-\<close>
    and \<open>*\<close> wrap around (signed overflow is undefined behaviour in C++; the model takes
    the wrap-around that the usual targets give);
  \<^item> a C++ \<open>double\<close> is an IEEE 754 binary64 value (\<open>double\<close>, below): a finite value,
    an infinity or NaN; every arithmetic operation rounds its exact result to the nearest
    double, ties to even, and overflows to an infinity;
  \<^item> a \<open>void\<close> method that mutates \<open>this\<close> and may throw returns the exception (if any)
    together with the object as the call leaves it;
  \<^item> a pointer that may be \<open>nullptr\<close> is an \<open>option\<close>; the objects a dish points to live
    in a store (\<open>Kitchen\<close>), so that two pointers may name the same object. The use of a
    null pointer, or of an address that holds no object, is undefined behaviour in C++; the
    model ends the call there with \<open>InvalidPointer\<close>, which is no exception of the
    source.
\<close>

type_synonym cint = "32 word"

datatype error =
    IngredientNotFoundException
  | NotEnoughIngredientException
  | ToolNotAvailableException
  | InvalidTemperatureException
  | TimerNotSetException
  | OvercookedDishException
  | UndercookedDishException
  | StorageException
  | InvalidPointer

type_synonym 's outcome = "error option \<times> 's"

subsection \<open>double\<close>

text \<open>
  A \<open>double\<close> is finite (\<open>Finite x\<close>, with \<open>x\<close> its value), \<open>+inf\<close>, \<open>-inf\<close> or NaN. The two
  zeros \<open>+0.0\<close> and \<open>-0.0\<close> are one value, \<open>Finite 0\<close>: they compare equal, and only a
  division by zero or a printed sign tells them apart; the code modelled here divides only
  by a value that it has found to be \<open>> 0\<close>. The constants are those of \<open><cfloat>\<close>:
  53 significant bits, values below \<open>2^1024\<close>, and \<open>2^-1074\<close> the smallest positive double.
  Every operation rounds once, to binary64 (no extended precision, no fused
  multiply-add). The operations return doubles only; a theorem about every \<open>Finite x\<close>
  holds in particular where \<open>x\<close> is the value of a double.
\<close>

datatype double = Finite real | PlusInf | MinusInf | NaN

definition DBL_MANT_DIG :: nat where
  "DBL_MANT_DIG = 53"

definition DBL_MAX_EXP :: nat where
  "DBL_MAX_EXP = 1024"

definition DBL_TRUE_MIN_EXP :: nat where
  "DBL_TRUE_MIN_EXP = 1074"

text \<open>Rounding to the nearest integer, a tie to the even one.\<close>

definition rne :: "real \<Rightarrow> int" where
  "rne r =
     (let f = \<lfloor>r\<rfloor>; d = r - real_of_int f
      in if d < 1 / 2 then f
         else if 1 / 2 < d then f + 1
         else if even f then f else f + 1)"

text \<open>
  \<open>fl x\<close> is the double that an operation with the exact result \<open>x\<close> returns. Scaled by
  \<open>2^1074\<close> every finite double is an integer of at most 53 significant bits, so around
  \<open>s = x * 2^1074\<close> the doubles are the multiples of \<open>u = 2^(bitlen \<lfloor>|s|\<rfloor> - 53)\<close> (of 1 in
  the subnormal range): \<open>s\<close> is rounded to the nearest multiple of \<open>u\<close>, and a result of
  magnitude \<open>2^1024\<close> or more is an infinity.
\<close>

definition fl :: "real \<Rightarrow> double" where
  "fl x =
     (let s = x * 2 ^ DBL_TRUE_MIN_EXP;
          u = 2 ^ nat (bitlen \<lfloor>\<bar>s\<bar>\<rfloor> - int DBL_MANT_DIG);
          y = real_of_int (rne (s / u)) * u / 2 ^ DBL_TRUE_MIN_EXP
      in if 2 ^ DBL_MAX_EXP \<le> \<bar>y\<bar> then (if 0 < x then PlusInf else MinusInf) else Finite y)"

text \<open>The sign of a double (0 for a zero and for NaN), and the infinity of a sign.\<close>

fun dsgn :: "double \<Rightarrow> int" where
  "dsgn (Finite x) = (if x < 0 then - 1 else if x = 0 then 0 else 1)"
| "dsgn PlusInf = 1"
| "dsgn MinusInf = - 1"
| "dsgn NaN = 0"

definition signed_inf :: "int \<Rightarrow> double" where
  "signed_inf s = (if s = 0 then NaN else if 0 < s then PlusInf else MinusInf)"

fun dneg :: "double \<Rightarrow> double" where
  "dneg (Finite x) = Finite (- x)"
| "dneg PlusInf = MinusInf"
| "dneg MinusInf = PlusInf"
| "dneg NaN = NaN"

text \<open>\<open>a + b\<close>: \<open>inf + (-inf)\<close> is NaN.\<close>

fun dadd :: "double \<Rightarrow> double \<Rightarrow> double" where
  "dadd (Finite x) (Finite y) = fl (x + y)"
| "dadd NaN b = NaN"
| "dadd a NaN = NaN"
| "dadd PlusInf MinusInf = NaN"
| "dadd MinusInf PlusInf = NaN"
| "dadd PlusInf b = PlusInf"
| "dadd MinusInf b = MinusInf"
| "dadd a PlusInf = PlusInf"
| "dadd a MinusInf = MinusInf"

text \<open>\<open>a - b\<close>\<close>

definition dsub :: "double \<Rightarrow> double \<Rightarrow> double" where
  "dsub a b = dadd a (dneg b)"

text \<open>\<open>a * b\<close>: \<open>inf * 0\<close> is NaN.\<close>

fun dmul :: "double \<Rightarrow> double \<Rightarrow> double" where
  "dmul (Finite x) (Finite y) = fl (x * y)"
| "dmul NaN b = NaN"
| "dmul a NaN = NaN"
| "dmul a b = signed_inf (dsgn a * dsgn b)"

text \<open>
  \<open>a / b\<close>: \<open>0 / 0\<close> and \<open>inf / inf\<close> are NaN, a finite value over an infinity is 0, and a
  zero divisor counts as \<open>+0.0\<close>.
\<close>

fun ddiv :: "double \<Rightarrow> double \<Rightarrow> double" where
  "ddiv (Finite x) (Finite y) = (if y = 0 then signed_inf (dsgn (Finite x)) else fl (x / y))"
| "ddiv NaN b = NaN"
| "ddiv a NaN = NaN"
| "ddiv (Finite x) b = Finite 0"
| "ddiv a (Finite y) = signed_inf (dsgn a * (if y < 0 then - 1 else 1))"
| "ddiv a b = NaN"

text \<open>\<open>a < b\<close> and \<open>a <= b\<close>: false when either side is NaN.\<close>

fun dlt :: "double \<Rightarrow> double \<Rightarrow> bool" where
  "dlt (Finite x) (Finite y) = (x < y)"
| "dlt NaN b = False"
| "dlt a NaN = False"
| "dlt a MinusInf = False"
| "dlt MinusInf b = True"
| "dlt PlusInf b = False"
| "dlt a PlusInf = True"

fun dle :: "double \<Rightarrow> double \<Rightarrow> bool" where
  "dle (Finite x) (Finite y) = (x \<le> y)"
| "dle NaN b = False"
| "dle a NaN = False"
| "dle MinusInf b = True"
| "dle a PlusInf = True"
| "dle a b = False"

text \<open>\<open>a > b\<close> and \<open>a >= b\<close>\<close>

definition dgt :: "double \<Rightarrow> double \<Rightarrow> bool" where
  "dgt a b = dlt b a"

definition dge :: "double \<Rightarrow> double \<Rightarrow> bool" where
  "dge a b = dle b a"

text \<open>An \<open>int\<close> converted to \<open>double\<close>: exact, an int has at most 31 significant bits.\<close>

definition double_of_int :: "cint \<Rightarrow> double" where
  "double_of_int i = Finite (real_of_int (sint i))"

subsection \<open>Unit, Quantity, Ingredient\<close>

record Unit =
  name_unit :: string
  gramsPerUnit :: double
  liquid :: bool
  id_unit :: cint

definition Unit_ctor :: "string \<Rightarrow> double \<Rightarrow> bool \<Rightarrow> cint \<Rightarrow> Unit" where
  "Unit_ctor n g l i = \<lparr>name_unit = n, gramsPerUnit = g, liquid = l, id_unit = i\<rparr>"

definition Unit_toGrams :: "Unit \<Rightarrow> double \<Rightarrow> double" where
  "Unit_toGrams u amount = dmul amount (gramsPerUnit u)"

text \<open>
  \<open>Quantity\<close> holds a \<open>Unit*\<close>. No method of \<open>Unit\<close> changes a unit, so the model keeps
  the unit pointed to by value; \<open>None\<close> is \<open>nullptr\<close>.
\<close>

record Quantity =
  value_q :: double
  unit_q :: "Unit option"
  approximate :: bool
  id_quantity :: cint

definition Quantity_ctor :: "double \<Rightarrow> Unit option \<Rightarrow> bool \<Rightarrow> cint \<Rightarrow> Quantity" where
  "Quantity_ctor v u appr i = \<lparr>value_q = v, unit_q = u, approximate = appr, id_quantity = i\<rparr>"

definition Quantity_toGrams :: "Quantity \<Rightarrow> error + double" where
  "Quantity_toGrams q =
     (case unit_q q of
        None \<Rightarrow> Inl StorageException
      | Some u \<Rightarrow> Inr (Unit_toGrams u (value_q q)))"

definition Quantity_scale :: "Quantity \<Rightarrow> double \<Rightarrow> Quantity" where
  "Quantity_scale q factor = q\<lparr>value_q := dmul (value_q q) factor\<rparr>"

definition Quantity_isZero :: "Quantity \<Rightarrow> bool" where
  "Quantity_isZero q \<longleftrightarrow> dle (value_q q) (Finite 0)"

record Ingredient =
  name_ingredient :: string
  quantity :: Quantity
  calories :: double
  perishable :: bool

definition Ingredient_ctor :: "string \<Rightarrow> Quantity \<Rightarrow> double \<Rightarrow> bool \<Rightarrow> Ingredient" where
  "Ingredient_ctor n q cal per =
     \<lparr>name_ingredient = n, quantity = q, calories = cal, perishable = per\<rparr>"

definition Ingredient_addAmount :: "Ingredient \<Rightarrow> double \<Rightarrow> Ingredient outcome" where
  "Ingredient_addAmount ing v =
     (case Quantity_toGrams (quantity ing) of
        Inl e \<Rightarrow> (Some e, ing)
      | Inr oldGrams \<Rightarrow>
          (let newGrams = dadd oldGrams v
           in if dgt oldGrams (Finite 0)
              then (let factor = ddiv newGrams oldGrams
                    in (None, ing\<lparr>quantity := Quantity_scale (quantity ing) factor\<rparr>))
              else (None, ing)))"

definition Ingredient_useAmount :: "Ingredient \<Rightarrow> double \<Rightarrow> Ingredient outcome" where
  "Ingredient_useAmount ing vGrams =
     (case Quantity_toGrams (quantity ing) of
        Inl e \<Rightarrow> (Some e, ing)
      | Inr grams \<Rightarrow>
          if dgt vGrams grams then (Some NotEnoughIngredientException, ing)
          else if dgt grams (Finite 0)
          then (let factor = ddiv (dsub grams vGrams) grams
                in (None, ing\<lparr>quantity := Quantity_scale (quantity ing) factor\<rparr>))
          else (None, ing))"

text \<open>The mass of an ingredient in grams, as \<open>quantity.toGrams()\<close> reads it.\<close>

definition Ingredient_grams :: "Ingredient \<Rightarrow> error + double" where
  "Ingredient_grams ing = Quantity_toGrams (quantity ing)"

subsection \<open>KitchenTool, Pan, Pot\<close>

record KitchenTool =
  name :: string
  clean :: bool
  available :: bool
  busy :: bool
  durability :: cint

text \<open>\<open>KitchenTool::KitchenTool(n, c, a, d)\<close> sets \<open>busy(false)\<close>.\<close>

definition KitchenTool_ctor :: "string \<Rightarrow> bool \<Rightarrow> bool \<Rightarrow> cint \<Rightarrow> KitchenTool" where
  "KitchenTool_ctor n c a d =
     \<lparr>name = n, clean = c, available = a, busy = False, durability = d\<rparr>"

text \<open>
  The methods of the base class are defined on every extension of the record, as the
  derived classes inherit them.
\<close>

definition KitchenTool_isAvailable :: "'a KitchenTool_scheme \<Rightarrow> bool" where
  "KitchenTool_isAvailable t \<longleftrightarrow> available t \<and> clean t \<and> sint (durability t) > 0"

definition KitchenTool_useTool :: "'a KitchenTool_scheme \<Rightarrow> 'a KitchenTool_scheme outcome" where
  "KitchenTool_useTool t =
     (if \<not> available t \<or> \<not> clean t \<or> sint (durability t) \<le> 0
      then (Some ToolNotAvailableException, t)
      else
        (let t1 = t\<lparr>busy := True\<rparr>;
             t2 = t1\<lparr>durability := durability t1 - 1\<rparr>;
             t3 = (if sint (durability t2) \<le> 0
                   then t2\<lparr>durability := 0, available := False\<rparr>
                   else t2)
         in (None, t3\<lparr>busy := False\<rparr>)))"

definition KitchenTool_cleanTool :: "'a KitchenTool_scheme \<Rightarrow> 'a KitchenTool_scheme" where
  "KitchenTool_cleanTool t = t\<lparr>clean := True\<rparr>"

definition KitchenTool_breakTool :: "'a KitchenTool_scheme \<Rightarrow> 'a KitchenTool_scheme" where
  "KitchenTool_breakTool t = t\<lparr>available := False, durability := 0\<rparr>"

text \<open>
  Successive \<open>useTool()\<close> calls on one tool, with nothing in between; the sequence ends at
  the first call that throws.
\<close>

fun useTool_times :: "nat \<Rightarrow> 'a KitchenTool_scheme \<Rightarrow> 'a KitchenTool_scheme outcome" where
  "useTool_times 0 t = (None, t)"
| "useTool_times (Suc n) t =
     (case KitchenTool_useTool t of
        (Some e, t') \<Rightarrow> (Some e, t')
      | (None, t') \<Rightarrow> useTool_times n t')"

record Pan = KitchenTool +
  diameter :: double
  nonStick :: bool
  onStove_pan :: bool

text \<open>\<open>Pan::Pan(n, d, ns, on) : KitchenTool(n, true, true, 100)\<close>\<close>

definition Pan_ctor :: "string \<Rightarrow> double \<Rightarrow> bool \<Rightarrow> bool \<Rightarrow> Pan" where
  "Pan_ctor n d ns on =
     \<lparr>name = n, clean = True, available = True, busy = False, durability = 100,
      diameter = d, nonStick = ns, onStove_pan = on\<rparr>"

definition Pan_heatUp :: "Pan \<Rightarrow> Pan outcome" where
  "Pan_heatUp p =
     (if \<not> KitchenTool_isAvailable p then (Some ToolNotAvailableException, p)
      else
        (case KitchenTool_useTool p of
           (Some e, p') \<Rightarrow> (Some e, p')
         | (None, p') \<Rightarrow> (None, p'\<lparr>onStove_pan := True\<rparr>)))"

definition Pan_coolDown :: "Pan \<Rightarrow> Pan" where
  "Pan_coolDown p = p\<lparr>onStove_pan := False\<rparr>"

definition Pan_isHot :: "Pan \<Rightarrow> bool" where
  "Pan_isHot p \<longleftrightarrow> onStove_pan p"

record Pot = KitchenTool +
  volume :: double
  hasLid :: bool
  onStove_pot :: bool

definition Pot_ctor :: "string \<Rightarrow> double \<Rightarrow> bool \<Rightarrow> bool \<Rightarrow> Pot" where
  "Pot_ctor n v lid on =
     \<lparr>name = n, clean = True, available = True, busy = False, durability = 100,
      volume = v, hasLid = lid, onStove_pot = on\<rparr>"

definition Pot_startBoil :: "Pot \<Rightarrow> Pot outcome" where
  "Pot_startBoil p =
     (if \<not> KitchenTool_isAvailable p then (Some ToolNotAvailableException, p)
      else
        (case KitchenTool_useTool p of
           (Some e, p') \<Rightarrow> (Some e, p')
         | (None, p') \<Rightarrow> (None, p'\<lparr>onStove_pot := True\<rparr>)))"

definition Pot_stopBoil :: "Pot \<Rightarrow> Pot" where
  "Pot_stopBoil p = p\<lparr>onStove_pot := False\<rparr>"

definition Pot_canBoil :: "Pot \<Rightarrow> double \<Rightarrow> bool" where
  "Pot_canBoil p liters \<longleftrightarrow> dle liters (volume p)"

subsection \<open>Timer\<close>

record Timer =
  seconds :: cint
  running :: bool
  elapsed :: cint
  id_timer :: cint

text \<open>\<open>Timer::Timer(int s = 0, bool r = false, int e = 0, int i = 0)\<close>\<close>

definition Timer_ctor :: "cint \<Rightarrow> bool \<Rightarrow> cint \<Rightarrow> cint \<Rightarrow> Timer" where
  "Timer_ctor s r e i = \<lparr>seconds = s, running = r, elapsed = e, id_timer = i\<rparr>"

definition Timer_default :: Timer where
  "Timer_default = Timer_ctor 0 False 0 0"

definition Timer_start :: "Timer \<Rightarrow> cint \<Rightarrow> Timer outcome" where
  "Timer_start t s =
     (if sint s \<le> 0 then (Some TimerNotSetException, t)
      else (None, t\<lparr>seconds := s, elapsed := 0, running := True\<rparr>))"

definition Timer_tick :: "Timer \<Rightarrow> cint \<Rightarrow> Timer" where
  "Timer_tick t delta =
     (if sint delta \<le> 0 then t
      else if \<not> running t then t
      else
        (let t1 = t\<lparr>elapsed := elapsed t + delta\<rparr>
         in if sint (elapsed t1) \<ge> sint (seconds t1)
            then t1\<lparr>elapsed := seconds t1, running := False\<rparr>
            else t1))"

definition Timer_isFinished :: "Timer \<Rightarrow> bool" where
  "Timer_isFinished t \<longleftrightarrow>
     \<not> running t \<and> sint (elapsed t) \<ge> sint (seconds t) \<and> sint (seconds t) > 0"

text \<open>A sequence of \<open>tick\<close> calls on one timer, one call per element of the list.\<close>

fun Timer_ticks :: "Timer \<Rightarrow> cint list \<Rightarrow> Timer" where
  "Timer_ticks t [] = t"
| "Timer_ticks t (d # ds) = Timer_ticks (Timer_tick t d) ds"

subsection \<open>TemperatureProfile, Oven, Stove\<close>

record TemperatureProfile =
  startTemp :: double
  targetTemp :: double
  duration :: cint
  gradual :: bool

definition TemperatureProfile_ctor :: "double \<Rightarrow> double \<Rightarrow> cint \<Rightarrow> bool \<Rightarrow> TemperatureProfile" where
  "TemperatureProfile_ctor s t d g =
     \<lparr>startTemp = s, targetTemp = t, duration = d, gradual = g\<rparr>"

text \<open>\<open>TemperatureProfile(double s = 20.0, double t = 180.0, int d = 600, bool g = true)\<close>\<close>

definition TemperatureProfile_default :: TemperatureProfile where
  "TemperatureProfile_default = TemperatureProfile_ctor (Finite 20) (Finite 180) 600 True"

definition TemperatureProfile_currentTemp :: "TemperatureProfile \<Rightarrow> cint \<Rightarrow> double" where
  "TemperatureProfile_currentTemp p e =
     (if \<not> gradual p \<or> sint e \<ge> sint (duration p) \<or> sint (duration p) \<le> 0
      then targetTemp p
      else
        (let ratio = ddiv (double_of_int e) (double_of_int (duration p))
         in dadd (startTemp p) (dmul (dsub (targetTemp p) (startTemp p)) ratio)))"

definition TemperatureProfile_isReached :: "TemperatureProfile \<Rightarrow> double \<Rightarrow> bool" where
  "TemperatureProfile_isReached p current \<longleftrightarrow> dge current (targetTemp p)"

definition TemperatureProfile_reset ::
  "TemperatureProfile \<Rightarrow> double \<Rightarrow> double \<Rightarrow> cint \<Rightarrow> TemperatureProfile" where
  "TemperatureProfile_reset p s t d = p\<lparr>startTemp := s, targetTemp := t, duration := d\<rparr>"

record Oven =
  temperature :: double
  on_oven :: bool
  doorClosed :: bool
  bakingTimer :: Timer
  profile :: TemperatureProfile
  elapsedSeconds :: cint

text \<open>
  \<open>Oven::Oven(double t = 0.0, bool o = false, bool d = true)\<close>, with \<open>bakingTimer()\<close>,
  \<open>profile()\<close> and \<open>elapsedSeconds(0)\<close>.
\<close>

definition Oven_ctor :: "double \<Rightarrow> bool \<Rightarrow> bool \<Rightarrow> Oven" where
  "Oven_ctor t isOn d =
     \<lparr>temperature = t, on_oven = isOn, doorClosed = d, bakingTimer = Timer_default,
      profile = TemperatureProfile_default, elapsedSeconds = 0\<rparr>"

definition Oven_default :: Oven where
  "Oven_default = Oven_ctor (Finite 0) False True"

definition Oven_preheat :: "Oven \<Rightarrow> double \<Rightarrow> cint \<Rightarrow> Oven outcome" where
  "Oven_preheat ov t warmupMinutes =
     (if dle t (Finite 0) \<or> dgt t (Finite 300) then (Some InvalidTemperatureException, ov)
      else if \<not> doorClosed ov then (Some InvalidTemperatureException, ov)
      else if sint warmupMinutes \<le> 0 then (Some InvalidTemperatureException, ov)
      else
        (None,
         ov\<lparr>profile := TemperatureProfile_reset (profile ov) (temperature ov) t (warmupMinutes * 60),
            elapsedSeconds := 0,
            on_oven := True\<rparr>))"

definition Oven_turnOff :: "Oven \<Rightarrow> Oven" where
  "Oven_turnOff ov = ov\<lparr>on_oven := False, temperature := Finite 0\<rparr>"

definition Oven_closeDoor :: "Oven \<Rightarrow> Oven" where
  "Oven_closeDoor ov = ov\<lparr>doorClosed := True\<rparr>"

definition Oven_openDoor :: "Oven \<Rightarrow> Oven" where
  "Oven_openDoor ov = ov\<lparr>doorClosed := False\<rparr>"

definition Oven_setTimerMinutes :: "Oven \<Rightarrow> cint \<Rightarrow> Oven outcome" where
  "Oven_setTimerMinutes ov minutes =
     (if sint minutes \<le> 0 then (Some TimerNotSetException, ov)
      else
        (case Timer_start (bakingTimer ov) (minutes * 60) of
           (e, t') \<Rightarrow> (e, ov\<lparr>bakingTimer := t'\<rparr>)))"

definition Oven_tick :: "Oven \<Rightarrow> cint \<Rightarrow> Oven" where
  "Oven_tick ov secondsDelta =
     (if sint secondsDelta \<le> 0 then ov
      else
        (let ov1 = (if on_oven ov
                    then (let ov' = ov\<lparr>elapsedSeconds := elapsedSeconds ov + secondsDelta\<rparr>
                          in ov'\<lparr>temperature :=
                                  TemperatureProfile_currentTemp (profile ov') (elapsedSeconds ov')\<rparr>)
                    else ov);
             ov2 = ov1\<lparr>bakingTimer := Timer_tick (bakingTimer ov1) secondsDelta\<rparr>
         in if Timer_isFinished (bakingTimer ov2) \<and> on_oven ov2 then Oven_turnOff ov2 else ov2))"

definition Oven_isOn :: "Oven \<Rightarrow> bool" where
  "Oven_isOn ov \<longleftrightarrow> on_oven ov"

definition Oven_getTemperature :: "Oven \<Rightarrow> double" where
  "Oven_getTemperature ov = temperature ov"

definition Oven_isDoorClosed :: "Oven \<Rightarrow> bool" where
  "Oven_isDoorClosed ov \<longleftrightarrow> doorClosed ov"

record Stove =
  burners :: cint
  activeBurners :: cint
  gas :: bool
  on_stove :: bool

definition Stove_ctor :: "cint \<Rightarrow> cint \<Rightarrow> bool \<Rightarrow> bool \<Rightarrow> Stove" where
  "Stove_ctor b act g isOn =
     \<lparr>burners = b, activeBurners = act, gas = g, on_stove = isOn\<rparr>"

definition Stove_turnOnBurner :: "Stove \<Rightarrow> Stove" where
  "Stove_turnOnBurner s =
     (if sint (activeBurners s) < sint (burners s)
      then s\<lparr>activeBurners := activeBurners s + 1, on_stove := True\<rparr>
      else s)"

definition Stove_turnOffBurner :: "Stove \<Rightarrow> Stove" where
  "Stove_turnOffBurner s =
     (if sint (activeBurners s) > 0
      then (let s1 = s\<lparr>activeBurners := activeBurners s - 1\<rparr>
            in if activeBurners s1 = 0 then s1\<lparr>on_stove := False\<rparr> else s1)
      else s)"

definition Stove_freeBurners :: "Stove \<Rightarrow> cint" where
  "Stove_freeBurners s = burners s - activeBurners s"

subsection \<open>ChickenSoupDish and Cook::cookChickenSoup\<close>

record Cook =
  name_cook :: string

text \<open>
  The objects a dish points to. Of the text written to \<open>cout\<close> the store keeps the numbers
  of the progress lines of the wait loops (\<open>minutesPassed\<close>, one line per iteration); the
  other lines are constant texts and are left out.
\<close>

record Kitchen =
  ingredients :: "nat \<rightharpoonup> Ingredient"
  pots :: "nat \<rightharpoonup> Pot"
  stoves :: "nat \<rightharpoonup> Stove"
  timers :: "nat \<rightharpoonup> Timer"
  progress :: "cint list"

text \<open>
  The pointers of a dish are addresses into the store (\<open>None\<close> is \<open>nullptr\<close>). A \<open>Cook\<close>
  has no mutable state and is kept by value.
\<close>

record ChickenSoupDish =
  name_dish :: string
  chicken :: "nat option"
  veggies :: "nat option"
  use_pot :: "nat option"
  use_stove :: "nat option"
  use_boilTimer :: "nat option"
  chef :: "Cook option"

text \<open>Statements in sequence: the first exception ends the sequence.\<close>

definition andThen :: "'s outcome \<Rightarrow> ('s \<Rightarrow> 's outcome) \<Rightarrow> 's outcome" where
  "andThen r f = (case r of (Some e, s) \<Rightarrow> (Some e, s) | (None, s) \<Rightarrow> f s)"

text \<open>\<open>p->canBoil(liters)\<close>\<close>

definition Kitchen_canBoil :: "nat option \<Rightarrow> double \<Rightarrow> Kitchen \<Rightarrow> error + bool" where
  "Kitchen_canBoil p liters k =
     (case p of
        None \<Rightarrow> Inl InvalidPointer
      | Some a \<Rightarrow>
          (case pots k a of
             None \<Rightarrow> Inl InvalidPointer
           | Some pot \<Rightarrow> Inr (Pot_canBoil pot liters)))"

text \<open>\<open>p->useAmount(vGrams)\<close>\<close>

definition Kitchen_useAmount :: "nat option \<Rightarrow> double \<Rightarrow> Kitchen \<Rightarrow> Kitchen outcome" where
  "Kitchen_useAmount p vGrams k =
     (case p of
        None \<Rightarrow> (Some InvalidPointer, k)
      | Some a \<Rightarrow>
          (case ingredients k a of
             None \<Rightarrow> (Some InvalidPointer, k)
           | Some ing \<Rightarrow>
               (case Ingredient_useAmount ing vGrams of
                  (e, ing') \<Rightarrow> (e, k\<lparr>ingredients := (ingredients k)(a \<mapsto> ing')\<rparr>))))"

text \<open>\<open>p->turnOnBurner()\<close> and \<open>p->turnOffBurner()\<close>\<close>

definition Kitchen_onStove :: "(Stove \<Rightarrow> Stove) \<Rightarrow> nat option \<Rightarrow> Kitchen \<Rightarrow> Kitchen outcome" where
  "Kitchen_onStove f p k =
     (case p of
        None \<Rightarrow> (Some InvalidPointer, k)
      | Some a \<Rightarrow>
          (case stoves k a of
             None \<Rightarrow> (Some InvalidPointer, k)
           | Some st \<Rightarrow> (None, k\<lparr>stoves := (stoves k)(a \<mapsto> f st)\<rparr>)))"

text \<open>\<open>p->startBoil()\<close>\<close>

definition Kitchen_startBoil :: "nat option \<Rightarrow> Kitchen \<Rightarrow> Kitchen outcome" where
  "Kitchen_startBoil p k =
     (case p of
        None \<Rightarrow> (Some InvalidPointer, k)
      | Some a \<Rightarrow>
          (case pots k a of
             None \<Rightarrow> (Some InvalidPointer, k)
           | Some pot \<Rightarrow>
               (case Pot_startBoil pot of
                  (e, pot') \<Rightarrow> (e, k\<lparr>pots := (pots k)(a \<mapsto> pot')\<rparr>))))"

text \<open>\<open>p->stopBoil()\<close>\<close>

definition Kitchen_stopBoil :: "nat option \<Rightarrow> Kitchen \<Rightarrow> Kitchen outcome" where
  "Kitchen_stopBoil p k =
     (case p of
        None \<Rightarrow> (Some InvalidPointer, k)
      | Some a \<Rightarrow>
          (case pots k a of
             None \<Rightarrow> (Some InvalidPointer, k)
           | Some pot \<Rightarrow> (None, k\<lparr>pots := (pots k)(a \<mapsto> Pot_stopBoil pot)\<rparr>)))"

text \<open>\<open>p->start(s)\<close>\<close>

definition Kitchen_startTimer :: "nat option \<Rightarrow> cint \<Rightarrow> Kitchen \<Rightarrow> Kitchen outcome" where
  "Kitchen_startTimer p s k =
     (case p of
        None \<Rightarrow> (Some InvalidPointer, k)
      | Some a \<Rightarrow>
          (case timers k a of
             None \<Rightarrow> (Some InvalidPointer, k)
           | Some t \<Rightarrow>
               (case Timer_start t s of
                  (e, t') \<Rightarrow> (e, k\<lparr>timers := (timers k)(a \<mapsto> t')\<rparr>))))"

text \<open>
  The wait loop of \<open>cookChickenSoup\<close>, on the timer alone:
  \<^verbatim>\<open>while (!t->isFinished()) { t->tick(step); minutesPassed += step / 60; cout << ...; }\<close>
  It returns the timer, \<open>minutesPassed\<close> and the progress numbers printed, one per
  iteration; \<open>None\<close> when the loop does not end. \<open>step / 60\<close> truncates towards zero.
\<close>

partial_function (option) waitLoop ::
  "Timer \<Rightarrow> cint \<Rightarrow> cint \<Rightarrow> cint list \<Rightarrow> (Timer \<times> cint \<times> cint list) option" where
  "waitLoop t step minutesPassed out =
     (if Timer_isFinished t then Some (t, minutesPassed, out)
      else
        (let t' = Timer_tick t step;
             minutesPassed' = minutesPassed + word_of_int (sint step sdiv 60)
         in waitLoop t' step minutesPassed' (out @ [minutesPassed'])))"

declare waitLoop.simps [code]

text \<open>The loop on the timer that \<open>p\<close> points to, with \<open>int minutesPassed = 0\<close>.\<close>

definition Kitchen_waitTimer :: "nat option \<Rightarrow> cint \<Rightarrow> Kitchen \<Rightarrow> Kitchen outcome option" where
  "Kitchen_waitTimer p step k =
     (case p of
        None \<Rightarrow> Some (Some InvalidPointer, k)
      | Some a \<Rightarrow>
          (case timers k a of
             None \<Rightarrow> Some (Some InvalidPointer, k)
           | Some t \<Rightarrow>
               (case waitLoop t step 0 [] of
                  None \<Rightarrow> None
                | Some (t', minutesPassed, out) \<Rightarrow>
                    Some (None, k\<lparr>timers := (timers k)(a \<mapsto> t'),
                                  progress := progress k @ out\<rparr>))))"

definition Cook_cookChickenSoup :: "ChickenSoupDish \<Rightarrow> Kitchen \<Rightarrow> Kitchen outcome option" where
  "Cook_cookChickenSoup dish k =
     (if use_pot dish = None then Some (Some ToolNotAvailableException, k)
      else if use_stove dish = None then Some (Some ToolNotAvailableException, k)
      else if use_boilTimer dish = None then Some (Some TimerNotSetException, k)
      else
        (case Kitchen_canBoil (use_pot dish) (Finite 1.5) k of
           Inl e \<Rightarrow> Some (Some e, k)
         | Inr fits \<Rightarrow>
             if \<not> fits then Some (Some NotEnoughIngredientException, k)
             else
               (case andThen (Kitchen_useAmount (chicken dish) (Finite 150) k) (\<lambda>k.
                     andThen (Kitchen_useAmount (veggies dish) (Finite 100) k) (\<lambda>k.
                     andThen (Kitchen_onStove Stove_turnOnBurner (use_stove dish) k) (\<lambda>k.
                     andThen (Kitchen_startBoil (use_pot dish) k) (\<lambda>k.
                     Kitchen_startTimer (use_boilTimer dish) (30 * 60) k)))) of
                  (Some e, k1) \<Rightarrow> Some (Some e, k1)
                | (None, k1) \<Rightarrow>
                    (case Kitchen_waitTimer (use_boilTimer dish) (5 * 60) k1 of
                       None \<Rightarrow> None
                     | Some (Some e, k2) \<Rightarrow> Some (Some e, k2)
                     | Some (None, k2) \<Rightarrow>
                         Some (andThen (Kitchen_onStove Stove_turnOffBurner (use_stove dish) k2)
                                 (Kitchen_stopBoil (use_pot dish)))))))"

text \<open>
  \<open>ChickenSoupDish::cook()\<close>: throws when there is no cook, otherwise hands the dish to
  the cook.
\<close>

definition ChickenSoupDish_cook :: "ChickenSoupDish \<Rightarrow> Kitchen \<Rightarrow> Kitchen outcome option" where
  "ChickenSoupDish_cook dish k =
     (case chef dish of
        None \<Rightarrow> Some (Some ToolNotAvailableException, k)
      | Some c \<Rightarrow> Cook_cookChickenSoup dish k)"

subsection \<open>Objects of the test scenarios\<close>

text \<open>
  \<open>makeIngredient\<close> of KitchenTests.cpp (an ingredient measured in the unit "g"), a store
  with two ingredients of 1000 g, a pot of the given volume, a stove and a timer, and a
  chicken soup whose pointers name them.
\<close>

definition makeIngredient :: "string \<Rightarrow> double \<Rightarrow> Ingredient" where
  "makeIngredient n grams =
     Ingredient_ctor n (Quantity_ctor grams (Some (Unit_ctor ''g'' (Finite 1) False 1)) False 0)
       (Finite 0) False"

definition soup_kitchen :: "double \<Rightarrow> Kitchen" where
  "soup_kitchen v =
     \<lparr>ingredients = [0 \<mapsto> makeIngredient ''chicken'' (Finite 1000),
                     1 \<mapsto> makeIngredient ''veg'' (Finite 1000)],
      pots = [0 \<mapsto> Pot_ctor ''pot'' v True False],
      stoves = [0 \<mapsto> Stove_ctor 4 0 True False],
      timers = [0 \<mapsto> Timer_default],
      progress = []\<rparr>"

definition soup_dish :: ChickenSoupDish where
  "soup_dish =
     \<lparr>name_dish = ''Chicken soup'', chicken = Some 0, veggies = Some 1, use_pot = Some 0,
      use_stove = Some 0, use_boilTimer = Some 0, chef = Some \<lparr>name_cook = ''cook''\<rparr>\<rparr>"

section \<open>Arithmetic of the 32-bit int\<close>

lemma sint_cint_range: "- (2 ^ 31) \<le> sint (x::cint) \<and> sint x < 2 ^ 31"
  using sint_ge [of x] sint_lt [of x] by simp

lemma sint_cint_dec: "0 < sint (d::cint) \<Longrightarrow> sint (d - 1) = sint d - 1"
proof -
  assume pos: "0 < sint d"
  have "sint (d - 1) = signed_take_bit 31 (sint d - 1)"
    by (simp add: sint_word_ariths)
  also have "\<dots> = sint d - 1"
    using pos sint_cint_range [of d] by (simp add: signed_take_bit_int_eq_self)
  finally show ?thesis .
qed

lemma sint_cint_add:
  "0 \<le> sint (a::cint) \<Longrightarrow> 0 \<le> sint (b::cint) \<Longrightarrow> sint a + sint b < 2 ^ 31 \<Longrightarrow>
     sint (a + b) = sint a + sint b"
proof -
  assume a: "0 \<le> sint a" and b: "0 \<le> sint b" and lt: "sint a + sint b < 2 ^ 31"
  have "sint (a + b) = signed_take_bit 31 (sint a + sint b)"
    by (simp add: sint_word_ariths)
  also have "\<dots> = sint a + sint b"
    using a b lt by (simp add: signed_take_bit_int_eq_self)
  finally show ?thesis .
qed

lemma ceiling_step:
  fixes r s :: int
  assumes "0 < s" and "s < r"
  shows "\<lceil>real_of_int r / real_of_int s\<rceil> = \<lceil>real_of_int (r - s) / real_of_int s\<rceil> + 1"
proof -
  from assms have "real_of_int r / real_of_int s = real_of_int (r - s) / real_of_int s + 1"
    by (simp add: field_simps)
  then show ?thesis by simp
qed

lemma ceiling_positive:
  fixes r s :: int
  assumes "0 < r" and "0 < s"
  shows "0 < \<lceil>real_of_int r / real_of_int s\<rceil>"
  using assms by (simp add: zero_less_ceiling)

lemma ceiling_last:
  fixes r s :: int
  assumes "0 < r" and "r \<le> s"
  shows "\<lceil>real_of_int r / real_of_int s\<rceil> = 1"
proof (rule ceiling_unique)
  from assms show "real_of_int 1 - 1 < real_of_int r / real_of_int s" by simp
  from assms show "real_of_int r / real_of_int s \<le> real_of_int 1" by simp
qed

section \<open>Arithmetic of double\<close>

lemma rne_of_int: "rne (real_of_int n) = n"
  by (simp add: rne_def)

lemma rne_ge_floor: "\<lfloor>r\<rfloor> \<le> rne r"
  by (simp add: rne_def Let_def)

lemma rne_le_ceiling: "rne r \<le> \<lceil>r\<rceil>"
proof (cases "r = real_of_int \<lfloor>r\<rfloor>")
  case True
  then have "rne r = \<lfloor>r\<rfloor>" by (simp add: rne_def)
  then show ?thesis by (simp add: floor_le_ceiling)
next
  case False
  then have "\<lceil>r\<rceil> = \<lfloor>r\<rfloor> + 1"
    by (metis ceiling_altdef)
  then show ?thesis by (simp add: rne_def Let_def)
qed

lemma rne_scaled_lower:
  assumes "0 < u" and "real_of_int n * u \<le> s"
  shows "real_of_int n * u \<le> real_of_int (rne (s / u)) * u"
proof -
  from assms have "real_of_int n \<le> s / u" by (simp add: pos_le_divide_eq)
  then have "n \<le> \<lfloor>s / u\<rfloor>" by (simp only: le_floor_iff)
  with rne_ge_floor [of "s / u"] have "n \<le> rne (s / u)" by linarith
  then have "real_of_int n \<le> real_of_int (rne (s / u))" by (simp only: of_int_le_iff)
  with assms(1) show ?thesis by (intro mult_right_mono) simp_all
qed

lemma rne_scaled_upper:
  assumes "0 < u" and "s \<le> real_of_int n * u"
  shows "real_of_int (rne (s / u)) * u \<le> real_of_int n * u"
proof -
  from assms have "s / u \<le> real_of_int n" by (simp add: pos_divide_le_eq)
  then have "\<lceil>s / u\<rceil> \<le> n" by (simp only: ceiling_le_iff)
  with rne_le_ceiling [of "s / u"] have "rne (s / u) \<le> n" by linarith
  then have "real_of_int (rne (s / u)) \<le> real_of_int n" by (simp only: of_int_le_iff)
  with assms(1) show ?thesis by (intro mult_right_mono) simp_all
qed

text \<open>Zero is a double.\<close>

lemma fl_zero: "fl 0 = Finite 0"
  by (simp add: fl_def rne_def not_le)

text \<open>
  A value \<open>m * 2^k\<close> with \<open>|m| < 2^53\<close>, \<open>k \<ge> -1074\<close> and magnitude below \<open>2^1024\<close> is a
  double: rounding returns it unchanged.
\<close>

lemma fl_exact:
  fixes m :: int
  assumes scaled: "x * 2 ^ DBL_TRUE_MIN_EXP = real_of_int (m * 2 ^ K)"
    and mant: "\<bar>m\<bar> < 2 ^ DBL_MANT_DIG" and range: "\<bar>x\<bar> < 2 ^ DBL_MAX_EXP"
  shows "fl x = Finite x"
proof -
  let ?S = "m * 2 ^ K"
  let ?j = "nat (bitlen \<bar>?S\<bar> - int DBL_MANT_DIG)"
  have "\<bar>x * 2 ^ DBL_TRUE_MIN_EXP\<bar> = real_of_int \<bar>?S\<bar>"
    unfolding scaled by (simp only: of_int_abs)
  then have fl_abs: "\<lfloor>\<bar>x * 2 ^ DBL_TRUE_MIN_EXP\<bar>\<rfloor> = \<bar>?S\<bar>"
    by (simp only: floor_of_int)
  from mant have "\<bar>?S\<bar> < 2 ^ DBL_MANT_DIG * 2 ^ K"
    by (simp add: abs_mult)
  then have "\<bar>?S\<bar> < 2 ^ nat (int DBL_MANT_DIG + int K)"
    by (simp add: nat_add_distrib power_add)
  then have "bitlen \<bar>?S\<bar> \<le> int DBL_MANT_DIG + int K"
    by (simp only: bitlen_le_iff_power) simp
  then have jK: "?j \<le> K" by simp
  then have "real_of_int ?S = real_of_int (m * 2 ^ (K - ?j)) * 2 ^ ?j"
    by (simp flip: power_add)
  then have "real_of_int ?S / 2 ^ ?j = real_of_int (m * 2 ^ (K - ?j))"
    by (simp only: nonzero_mult_div_cancel_right) simp
  then have "real_of_int (rne (real_of_int ?S / 2 ^ ?j)) * 2 ^ ?j = real_of_int ?S"
    by (simp only: rne_of_int) (simp flip: power_add add: jK)
  then have "real_of_int (rne (x * 2 ^ DBL_TRUE_MIN_EXP / 2 ^ ?j)) * 2 ^ ?j / 2 ^ DBL_TRUE_MIN_EXP = x"
    unfolding scaled [symmetric] by simp
  with range show ?thesis
    unfolding fl_def Let_def fl_abs by simp
qed

lemma fl_int:
  assumes "\<bar>m\<bar> < 2 ^ 53"
  shows "fl (real_of_int m) = Finite (real_of_int m)"
proof (rule fl_exact [where m = m and K = DBL_TRUE_MIN_EXP])
  from assms show "\<bar>m\<bar> < 2 ^ DBL_MANT_DIG" by (simp add: DBL_MANT_DIG_def)
  from assms have "real_of_int \<bar>m\<bar> < real_of_int (2 ^ 53)"
    by (simp only: of_int_less_iff)
  then show "\<bar>real_of_int m\<bar> < 2 ^ DBL_MAX_EXP"
    by (simp add: DBL_MAX_EXP_def)
  show "real_of_int m * 2 ^ DBL_TRUE_MIN_EXP = real_of_int (m * 2 ^ DBL_TRUE_MIN_EXP)" by simp
qed

lemma fl_numeral: "(numeral n :: int) < 2 ^ 53 \<Longrightarrow> fl (numeral n) = Finite (numeral n)"
  using fl_int [of "numeral n"] by simp

lemma fl_neg_numeral: "(numeral n :: int) < 2 ^ 53 \<Longrightarrow> fl (- numeral n) = Finite (- numeral n)"
  using fl_int [of "- numeral n"] by simp

lemma fl_minus_half: "fl (- (1 / 2)) = Finite (- (1 / 2))"
proof (rule fl_exact [where m = "- 1" and K = 1073])
  show "- (1 / 2) * 2 ^ DBL_TRUE_MIN_EXP = real_of_int (- 1 * 2 ^ 1073)"
    by (simp add: DBL_TRUE_MIN_EXP_def)
  show "\<bar>- 1 :: int\<bar> < 2 ^ DBL_MANT_DIG"
    by (simp add: DBL_MANT_DIG_def)
  show "\<bar>- (1 / 2) :: real\<bar> < 2 ^ DBL_MAX_EXP"
    by (simp add: DBL_MAX_EXP_def)
qed

text \<open>A result of magnitude \<open>2^1024\<close> or more overflows.\<close>

lemma fl_overflow:
  assumes big: "2 ^ DBL_MAX_EXP \<le> \<bar>x\<bar>"
  shows "fl x = (if 0 < x then PlusInf else MinusInf)"
proof -
  define A :: real where "A = 2 ^ DBL_TRUE_MIN_EXP"
  define P where "P = DBL_MAX_EXP + DBL_TRUE_MIN_EXP"
  define s where "s = x * A"
  define n where "n = \<lfloor>\<bar>s\<bar>\<rfloor>"
  define j where "j = nat (bitlen n - int DBL_MANT_DIG)"
  define u :: real where "u = 2 ^ j"
  define y where "y = real_of_int (rne (s / u)) * u"
  have Apos: "0 < A" by (simp add: A_def)
  have upos: "0 < u" by (simp add: u_def)
  have MP: "DBL_MANT_DIG \<le> P" and M1: "1 \<le> DBL_MANT_DIG"
    by (simp_all add: P_def DBL_MANT_DIG_def DBL_MAX_EXP_def)
  have PA: "(2::real) ^ P = 2 ^ DBL_MAX_EXP * A"
    by (simp add: P_def A_def power_add)
  from big Apos have "2 ^ DBL_MAX_EXP * A \<le> \<bar>x\<bar> * A"
    by (intro mult_right_mono) simp_all
  with Apos have sbig: "2 ^ P \<le> \<bar>s\<bar>"
    by (simp add: PA s_def abs_mult)
  then have "real_of_int (2 ^ P) \<le> \<bar>s\<bar>" by simp
  then have nbig: "2 ^ P \<le> n" unfolding n_def by (simp only: le_floor_iff)
  have "(0::int) < 2 ^ P" by simp
  with nbig have npos: "0 < n" by linarith
  have "nat (int P + 1) - 1 = P" by simp
  with nbig have "int P + 1 \<le> bitlen n"
    by (simp only: bitlen_ge_iff_power) simp
  with MP M1 have bsplit: "nat (bitlen n - 1) = (DBL_MANT_DIG - 1) + j"
    and jP: "P \<le> nat (bitlen n - 1)"
    unfolding j_def by linarith+
  from bitlen_bounds [OF npos] have "2 ^ nat (bitlen n - 1) \<le> n" by simp
  then have "real_of_int (2 ^ nat (bitlen n - 1)) \<le> real_of_int n" by (simp only: of_int_le_iff)
  also have "\<dots> \<le> \<bar>s\<bar>" unfolding n_def by simp
  finally have lo: "real_of_int (2 ^ (DBL_MANT_DIG - 1)) * u \<le> \<bar>s\<bar>"
    unfolding bsplit u_def by (simp add: power_add)
  have grow: "(2::real) ^ P \<le> real_of_int (2 ^ (DBL_MANT_DIG - 1)) * u"
  proof -
    have "(2::real) ^ P \<le> 2 ^ nat (bitlen n - 1)"
      using jP by (intro power_increasing) simp_all
    then show ?thesis unfolding bsplit u_def by (simp add: power_add)
  qed
  have ybig: "2 ^ P \<le> \<bar>y\<bar>"
  proof (cases "0 \<le> s")
    case True
    with lo have "real_of_int (2 ^ (DBL_MANT_DIG - 1)) * u \<le> s" by simp
    from rne_scaled_lower [OF upos this] grow show ?thesis
      unfolding y_def by linarith
  next
    case False
    with lo have "s \<le> real_of_int (- (2 ^ (DBL_MANT_DIG - 1))) * u" by simp
    from rne_scaled_upper [OF upos this] grow show ?thesis
      unfolding y_def by simp
  qed
  with Apos have "2 ^ DBL_MAX_EXP \<le> \<bar>y / A\<bar>"
    by (simp add: PA pos_le_divide_eq)
  then show ?thesis
    unfolding fl_def Let_def y_def u_def j_def n_def s_def A_def by simp
qed

lemma dmul_Finite_D: "dmul a b = Finite g \<Longrightarrow> \<exists>x y. a = Finite x \<and> b = Finite y"
  by (cases a; cases b) (simp_all add: signed_inf_def split: if_splits)

section \<open>Ingredient: replenishing and consuming\<close>

text \<open>
  C1 (the code at the failing input). An ingredient of 0 g in the unit "g" (1 g per unit)
  receives \<open>addAmount(100)\<close>: \<open>oldGrams > 0.0\<close> is false, the rescaling is skipped, the
  call returns normally and the ingredient is what it was, its mass still 0 g and not the
  100 g that the documentation of \<open>addAmount\<close> ("adds the mass to the current quantity")
  promises.
\<close>

theorem C1_addAmount_zero_stock_unchanged:
  "Ingredient_addAmount
     (Ingredient_ctor ''sugar''
        (Quantity_ctor (Finite 0) (Some (Unit_ctor ''g'' (Finite 1) False 1)) False 0)
        (Finite 0) False)
     (Finite 100) =
   (None,
    Ingredient_ctor ''sugar''
      (Quantity_ctor (Finite 0) (Some (Unit_ctor ''g'' (Finite 1) False 1)) False 0)
      (Finite 0) False)
   \<and> Ingredient_grams (snd (Ingredient_addAmount
         (Ingredient_ctor ''sugar''
            (Quantity_ctor (Finite 0) (Some (Unit_ctor ''g'' (Finite 1) False 1)) False 0)
            (Finite 0) False)
         (Finite 100))) = Inr (Finite 0)"
  by (simp add: Ingredient_addAmount_def Ingredient_ctor_def Quantity_ctor_def Unit_ctor_def
      Quantity_toGrams_def Unit_toGrams_def Ingredient_grams_def dgt_def fl_zero Let_def)

text \<open>
  C3 (as amended). For every ingredient with a bound unit and a finite positive mass \<open>g\<close>,
  \<open>useAmount(g)\<close> returns normally and leaves a mass of exactly 0: \<open>g - g\<close> is 0, the factor
  \<open>0 / g\<close> is 0 and the value becomes \<open>value * 0 = 0\<close>, none of which rounds. After that,
  \<open>useAmount\<close> of any positive amount throws \<open>NotEnoughIngredientException\<close> and leaves the
  ingredient as it was, its mass still 0.
\<close>

theorem C3_useAmount_all_then_empty:
  assumes "unit_q (quantity ing) = Some u" and "Ingredient_grams ing = Inr (Finite g)" and "0 < g"
  shows "\<exists>ing'. Ingredient_useAmount ing (Finite g) = (None, ing') \<and>
           Ingredient_grams ing' = Inr (Finite 0) \<and>
           (\<forall>v. dgt v (Finite 0) \<longrightarrow>
              Ingredient_useAmount ing' v = (Some NotEnoughIngredientException, ing') \<and>
              Ingredient_grams (snd (Ingredient_useAmount ing' v)) = Inr (Finite 0))"
proof -
  from assms(1,2) have mass: "dmul (value_q (quantity ing)) (gramsPerUnit u) = Finite g"
    by (simp add: Ingredient_grams_def Quantity_toGrams_def Unit_toGrams_def)
  from dmul_Finite_D [OF this] obtain x c where
    xc: "value_q (quantity ing) = Finite x" "gramsPerUnit u = Finite c"
    by blast
  let ?ing' = "ing\<lparr>quantity := Quantity_scale (quantity ing) (Finite 0)\<rparr>"
  from assms(3) have factor: "ddiv (dsub (Finite g) (Finite g)) (Finite g) = Finite 0"
    by (simp add: dsub_def fl_zero)
  from assms mass factor have use: "Ingredient_useAmount ing (Finite g) = (None, ?ing')"
    by (simp add: Ingredient_useAmount_def Quantity_toGrams_def Unit_toGrams_def dgt_def)
  from assms(1) xc have zero: "Ingredient_grams ?ing' = Inr (Finite 0)"
    by (simp add: Ingredient_grams_def Quantity_toGrams_def Unit_toGrams_def Quantity_scale_def
        fl_zero)
  from zero have again: "\<And>v. dgt v (Finite 0) \<Longrightarrow>
      Ingredient_useAmount ?ing' v = (Some NotEnoughIngredientException, ?ing')"
    by (simp add: Ingredient_useAmount_def Ingredient_grams_def)
  from use zero again show ?thesis by auto
qed

theorem C3_useAmount_all_then_empty_witness:
  "\<exists>ing'. Ingredient_useAmount (makeIngredient ''Flour'' (Finite 150)) (Finite 150) = (None, ing') \<and>
          Ingredient_grams ing' = Inr (Finite 0) \<and>
          Ingredient_useAmount ing' (Finite 150) = (Some NotEnoughIngredientException, ing')"
proof -
  let ?flour = "makeIngredient ''Flour'' (Finite 150)"
  have u: "unit_q (quantity ?flour) = Some (Unit_ctor ''g'' (Finite 1) False 1)"
    by (simp add: makeIngredient_def Ingredient_ctor_def Quantity_ctor_def)
  have g: "Ingredient_grams ?flour = Inr (Finite 150)"
    by (simp add: Ingredient_grams_def Quantity_toGrams_def Unit_toGrams_def makeIngredient_def
        Ingredient_ctor_def Quantity_ctor_def Unit_ctor_def fl_numeral)
  have pos: "(0::real) < 150" by simp
  have v: "dgt (Finite 150) (Finite 0)" by (simp add: dgt_def)
  from C3_useAmount_all_then_empty [OF u g pos] v show ?thesis
    by blast
qed

text \<open>
  C3 as stated fails at an infinite mass. The quantity \<open>1e308\<close> (the double
  \<open>5010420900022432 * 2^971\<close>) in a unit of 10 g has the mass \<open>+inf\<close>, which is \<open>> 0\<close>.
  \<open>useAmount(+inf)\<close> does not throw; its factor is \<open>(inf - inf) / inf\<close>, NaN, so the value
  and the mass become NaN, not 0; and a later \<open>useAmount(1.0)\<close> returns normally, because
  neither \<open>1.0 > NaN\<close> nor \<open>NaN > 0.0\<close> holds.
\<close>

theorem C3_infinite_mass_not_emptied:
  "Ingredient_grams
     (Ingredient_ctor ''stock''
        (Quantity_ctor (Finite (5010420900022432 * 2 ^ 971))
           (Some (Unit_ctor ''10 g'' (Finite 10) False 1)) False 0)
        (Finite 0) False) = Inr PlusInf \<and>
   dgt PlusInf (Finite 0) \<and>
   Ingredient_useAmount
     (Ingredient_ctor ''stock''
        (Quantity_ctor (Finite (5010420900022432 * 2 ^ 971))
           (Some (Unit_ctor ''10 g'' (Finite 10) False 1)) False 0)
        (Finite 0) False) PlusInf =
     (None,
      Ingredient_ctor ''stock''
        (Quantity_ctor NaN (Some (Unit_ctor ''10 g'' (Finite 10) False 1)) False 0)
        (Finite 0) False) \<and>
   Ingredient_grams
     (Ingredient_ctor ''stock''
        (Quantity_ctor NaN (Some (Unit_ctor ''10 g'' (Finite 10) False 1)) False 0)
        (Finite 0) False) = Inr NaN \<and>
   Ingredient_useAmount
     (Ingredient_ctor ''stock''
        (Quantity_ctor NaN (Some (Unit_ctor ''10 g'' (Finite 10) False 1)) False 0)
        (Finite 0) False) (Finite 1) =
     (None,
      Ingredient_ctor ''stock''
        (Quantity_ctor NaN (Some (Unit_ctor ''10 g'' (Finite 10) False 1)) False 0)
        (Finite 0) False)"
proof -
  have "(2::real) ^ DBL_MAX_EXP \<le> \<bar>5010420900022432 * 2 ^ 971 * 10\<bar>"
    by (simp add: DBL_MAX_EXP_def)
  note inf = fl_overflow [OF this, simplified]
  show ?thesis
    by (simp add: Ingredient_grams_def Ingredient_useAmount_def Ingredient_ctor_def
        Quantity_ctor_def Unit_ctor_def Quantity_toGrams_def Unit_toGrams_def Quantity_scale_def
        dgt_def dsub_def signed_inf_def inf)
qed

section \<open>KitchenTool: wearing a tool out\<close>

lemma useTool_usable:
  assumes "available t" and "clean t" and "0 < sint (durability t)"
  shows "\<exists>t'. KitchenTool_useTool t = (None, t') \<and> clean t' \<and>
           sint (durability t') = sint (durability t) - 1 \<and>
           (available t' \<longleftrightarrow> 1 < sint (durability t))"
proof (cases "sint (durability t - 1) \<le> 0")
  case True
  with assms sint_cint_dec [of "durability t"] have "sint (durability t) = 1" by simp
  with assms True show ?thesis
    by (simp add: KitchenTool_useTool_def Let_def)
next
  case False
  with assms sint_cint_dec [of "durability t"] show ?thesis
    by (simp add: KitchenTool_useTool_def Let_def)
qed

lemma useTool_times_succeed:
  "available t \<Longrightarrow> clean t \<Longrightarrow> 0 < sint (durability t) \<Longrightarrow> int k \<le> sint (durability t) \<Longrightarrow>
     \<exists>t'. useTool_times k t = (None, t') \<and> clean t' \<and>
          sint (durability t') = sint (durability t) - int k \<and>
          (available t' \<longleftrightarrow> int k < sint (durability t))"
proof (induction k arbitrary: t)
  case 0
  then show ?case by simp
next
  case (Suc k)
  from useTool_usable [OF Suc.prems(1-3)] obtain t1 where
    t1: "KitchenTool_useTool t = (None, t1)" "clean t1"
        "sint (durability t1) = sint (durability t) - 1"
        "available t1 \<longleftrightarrow> 1 < sint (durability t)"
    by blast
  show ?case
  proof (cases k)
    case 0
    with t1 show ?thesis by simp
  next
    case (Suc j)
    with Suc.prems(4) have big: "1 < sint (durability t)" by simp
    with t1 have a1: "available t1" and p1: "0 < sint (durability t1)" by simp_all
    from Suc.prems(4) t1(3) have le1: "int k \<le> sint (durability t1)" by simp
    from Suc.IH [OF a1 t1(2) p1 le1] obtain t' where
      "useTool_times k t1 = (None, t')" "clean t'"
      "sint (durability t') = sint (durability t1) - int k"
      "available t' \<longleftrightarrow> int k < sint (durability t1)"
      by blast
    with t1 show ?thesis by auto
  qed
qed

lemma useTool_times_Suc_last:
  "useTool_times (Suc k) t =
     (case useTool_times k t of
        (Some e, t') \<Rightarrow> (Some e, t')
      | (None, t') \<Rightarrow> KitchenTool_useTool t')"
proof (induction k arbitrary: t)
  case 0
  then show ?case by (simp split: prod.splits option.splits)
next
  case (Suc k)
  show ?case
  proof (cases "KitchenTool_useTool t")
    case (Pair e t1)
    show ?thesis
    proof (cases e)
      case None
      with Pair Suc.IH [of t1] show ?thesis by simp
    next
      case (Some x)
      with Pair show ?thesis by simp
    qed
  qed
qed

text \<open>
  C4. A tool that is clean and available with durability \<open>d > 0\<close> takes exactly \<open>d\<close>
  successive \<open>useTool()\<close> calls: after \<open>k \<le> d\<close> calls (none of them throws) the durability
  is \<open>d - k\<close>, never negative, and the tool is still available exactly when \<open>k < d\<close>;
  the \<open>d\<close>-th call leaves durability 0 and \<open>available\<close> false, and call \<open>d + 1\<close> throws
  \<open>ToolNotAvailableException\<close> and changes nothing.
\<close>

theorem C4_useTool_exactly_durability_times:
  assumes "available t" and "clean t" and "0 < sint (durability t)"
  shows "(\<forall>k. int k \<le> sint (durability t) \<longrightarrow>
            (\<exists>t'. useTool_times k t = (None, t') \<and>
                 sint (durability t') = sint (durability t) - int k \<and>
                 (available t' \<longleftrightarrow> int k < sint (durability t)))) \<and>
         (\<exists>t'. useTool_times (nat (sint (durability t))) t = (None, t') \<and>
              durability t' = 0 \<and> \<not> available t' \<and>
              KitchenTool_useTool t' = (Some ToolNotAvailableException, t') \<and>
              useTool_times (Suc (nat (sint (durability t)))) t =
                (Some ToolNotAvailableException, t'))"
proof (intro conjI allI impI)
  fix k
  assume "int k \<le> sint (durability t)"
  with useTool_times_succeed [OF assms, of k]
  show "\<exists>t'. useTool_times k t = (None, t') \<and>
                 sint (durability t') = sint (durability t) - int k \<and>
                 (available t' \<longleftrightarrow> int k < sint (durability t))"
    by blast
next
  let ?d = "nat (sint (durability t))"
  from assms(3) have "int ?d \<le> sint (durability t)" by simp
  from useTool_times_succeed [OF assms this] obtain t' where
    t': "useTool_times ?d t = (None, t')" "sint (durability t') = sint (durability t) - int ?d"
        "available t' \<longleftrightarrow> int ?d < sint (durability t)"
    by blast
  from t'(2) assms(3) have "sint (durability t') = 0" by simp
  then have d0: "durability t' = 0" by (simp only: signed_eq_0_iff)
  from t'(3) assms(3) have na: "\<not> available t'" by simp
  from na have fail: "KitchenTool_useTool t' = (Some ToolNotAvailableException, t')"
    by (simp add: KitchenTool_useTool_def)
  have "useTool_times (Suc ?d) t = (Some ToolNotAvailableException, t')"
    by (simp only: useTool_times_Suc_last t' fail prod.case option.case)
  with t'(1) d0 na fail
  show "\<exists>t'. useTool_times ?d t = (None, t') \<and>
              durability t' = 0 \<and> \<not> available t' \<and>
              KitchenTool_useTool t' = (Some ToolNotAvailableException, t') \<and>
              useTool_times (Suc ?d) t = (Some ToolNotAvailableException, t')"
    by blast
qed

theorem C4_useTool_exactly_durability_times_witness:
  "\<exists>t1 t2. useTool_times 1 (KitchenTool_ctor ''tool'' True True 2) = (None, t1) \<and>
           available t1 \<and> sint (durability t1) = 1 \<and>
           useTool_times 2 (KitchenTool_ctor ''tool'' True True 2) = (None, t2) \<and>
           durability t2 = 0 \<and> \<not> available t2 \<and>
           useTool_times 3 (KitchenTool_ctor ''tool'' True True 2) =
             (Some ToolNotAvailableException, t2)"
proof -
  let ?t = "KitchenTool_ctor ''tool'' True True 2"
  have a: "available ?t" and c: "clean ?t" and d: "0 < sint (durability ?t)"
    by (simp_all add: KitchenTool_ctor_def)
  have d2: "sint (durability ?t) = 2"
    by (simp add: KitchenTool_ctor_def)
  note inst = C4_useTool_exactly_durability_times [OF a c d, unfolded d2]
  from inst have "\<exists>t'. useTool_times 1 ?t = (None, t') \<and> sint (durability t') = 2 - int 1 \<and>
                 (available t' \<longleftrightarrow> int 1 < 2)"
    by (elim conjE allE [of _ 1]) simp
  then obtain t1 where t1: "useTool_times 1 ?t = (None, t1)" "sint (durability t1) = 1" "available t1"
    by auto
  from inst obtain t2 where t2: "useTool_times (nat 2) ?t = (None, t2)" "durability t2 = 0"
      "\<not> available t2" "useTool_times (Suc (nat 2)) ?t = (Some ToolNotAvailableException, t2)"
    by blast
  have n2: "nat 2 = (2::nat)" and n3: "(3::nat) = Suc 2" by simp_all
  from t1 t2 [unfolded n2] show ?thesis unfolding n3 by blast
qed

section \<open>Timer: ticking a stopped timer\<close>

lemma Timer_tick_not_running: "\<not> running t \<Longrightarrow> Timer_tick t delta = t"
  by (simp add: Timer_tick_def)

lemma Timer_ticks_not_running: "\<not> running t \<Longrightarrow> Timer_ticks t ds = t"
  by (induction ds) (simp_all add: Timer_tick_not_running)

text \<open>
  C5. For every timer that is not running (idle or finished), \<open>tick\<close> with any delta
  leaves the whole timer unchanged, and so does any sequence of ticks; a finished timer
  stays finished and its elapsed time stays where it was.
\<close>

theorem C5_tick_stopped_noop:
  "\<not> running t \<Longrightarrow>
     Timer_tick t delta = t \<and> Timer_ticks t ds = t \<and>
     (Timer_isFinished t \<longrightarrow>
        Timer_isFinished (Timer_ticks t ds) \<and> elapsed (Timer_ticks t ds) = elapsed t)"
  by (simp add: Timer_tick_not_running Timer_ticks_not_running)

theorem C5_tick_stopped_noop_witness:
  "\<not> running (Timer_ctor 10 False 10 0) \<and>
     Timer_tick (Timer_ctor 10 False 10 0) 5 = Timer_ctor 10 False 10 0 \<and>
     Timer_ticks (Timer_ctor 10 False 10 0) [5, 10] = Timer_ctor 10 False 10 0 \<and>
     Timer_isFinished (Timer_ctor 10 False 10 0) \<and>
     Timer_isFinished (Timer_ticks (Timer_ctor 10 False 10 0) [5, 10]) \<and>
     elapsed (Timer_ticks (Timer_ctor 10 False 10 0) [5, 10]) = 10"
proof -
  have h: "\<not> running (Timer_ctor 10 False 10 0)"
    by (simp add: Timer_ctor_def)
  have f: "Timer_isFinished (Timer_ctor 10 False 10 0)"
    by (simp add: Timer_ctor_def Timer_isFinished_def)
  have e: "elapsed (Timer_ctor 10 False 10 0) = 10"
    by (simp add: Timer_ctor_def)
  from C5_tick_stopped_noop [OF h, of 5 "[5, 10]"] h f e show ?thesis
    by metis
qed

section \<open>Timer: the wait loop\<close>

lemma waitLoop_finished: "Timer_isFinished t \<Longrightarrow> waitLoop t step m out = Some (t, m, out)"
  by (subst waitLoop.simps) simp

lemma waitLoop_not_finished:
  "\<not> Timer_isFinished t \<Longrightarrow>
     waitLoop t step m out =
       waitLoop (Timer_tick t step) step (m + word_of_int (sint step sdiv 60))
         (out @ [m + word_of_int (sint step sdiv 60)])"
  by (subst waitLoop.simps) (simp add: Let_def)

lemma waitLoop_running_terminates:
  assumes "running t" and "0 < sint step"
    and "0 \<le> sint (elapsed t)" and "sint (elapsed t) < sint (seconds t)"
    and "sint (elapsed t) + sint step *
           \<lceil>real_of_int (sint (seconds t) - sint (elapsed t)) / real_of_int (sint step)\<rceil> < 2 ^ 31"
  shows "\<exists>m' out'. waitLoop t step m out =
            Some (t\<lparr>elapsed := seconds t, running := False\<rparr>, m', out') \<and>
          int (length out') = int (length out) +
            \<lceil>real_of_int (sint (seconds t) - sint (elapsed t)) / real_of_int (sint step)\<rceil>"
  using assms
proof (induction "nat (sint (seconds t) - sint (elapsed t))" arbitrary: t m out rule: less_induct)
  case less
  let ?T = "sint (seconds t)" and ?e = "sint (elapsed t)" and ?s = "sint step"
  let ?m = "m + word_of_int (?s sdiv 60)"
  from less.prems have "0 < \<lceil>real_of_int (?T - ?e) / real_of_int ?s\<rceil>"
    by (intro ceiling_positive) simp_all
  with less.prems(2) have "?s * 1 \<le> ?s * \<lceil>real_of_int (?T - ?e) / real_of_int ?s\<rceil>"
    by (intro mult_left_mono) simp_all
  with less.prems(5) have fits: "?e + ?s < 2 ^ 31"
    by simp
  from less.prems fits have sum: "sint (elapsed t + step) = ?e + ?s"
    by (intro sint_cint_add) simp_all
  from less.prems have notfin: "\<not> Timer_isFinished t"
    by (simp add: Timer_isFinished_def)
  note unfold = waitLoop_not_finished [OF notfin, of step m out]
  show ?case
  proof (cases "?T \<le> ?e + ?s")
    case True
    with less.prems sum
    have tick: "Timer_tick t step = t\<lparr>elapsed := seconds t, running := False\<rparr>"
      by (simp add: Timer_tick_def Let_def)
    from less.prems have fin: "Timer_isFinished (t\<lparr>elapsed := seconds t, running := False\<rparr>)"
      by (simp add: Timer_isFinished_def)
    from True less.prems have "\<lceil>real_of_int (?T - ?e) / real_of_int ?s\<rceil> = 1"
      by (intro ceiling_last) simp_all
    with unfold tick waitLoop_finished [OF fin] show ?thesis
      by simp
  next
    case False
    let ?t = "t\<lparr>elapsed := elapsed t + step\<rparr>"
    from False less.prems sum have tick: "Timer_tick t step = ?t"
      by (simp add: Timer_tick_def Let_def)
    have dec: "nat (sint (seconds ?t) - sint (elapsed ?t)) < nat (?T - ?e)"
      using False less.prems sum by simp
    have p1: "running ?t" using less.prems by simp
    have p3: "0 \<le> sint (elapsed ?t)" using less.prems sum by simp
    have p4: "sint (elapsed ?t) < sint (seconds ?t)" using False sum by simp
    have eq: "sint (seconds ?t) - sint (elapsed ?t) = ?T - ?e - ?s"
      using sum by simp
    from False less.prems
    have cs: "\<lceil>real_of_int (?T - ?e) / real_of_int ?s\<rceil> =
          \<lceil>real_of_int (?T - ?e - ?s) / real_of_int ?s\<rceil> + 1"
      by (intro ceiling_step) simp_all
    have "sint (elapsed ?t) + ?s * \<lceil>real_of_int (?T - ?e - ?s) / real_of_int ?s\<rceil> =
          ?e + ?s * (\<lceil>real_of_int (?T - ?e - ?s) / real_of_int ?s\<rceil> + 1)"
      using sum by (simp add: algebra_simps)
    with less.prems(5) [unfolded cs]
    have "sint (elapsed ?t) + ?s * \<lceil>real_of_int (?T - ?e - ?s) / real_of_int ?s\<rceil> < 2 ^ 31"
      by (simp only:)
    then have p5: "sint (elapsed ?t) + ?s *
        \<lceil>real_of_int (sint (seconds ?t) - sint (elapsed ?t)) / real_of_int ?s\<rceil> < 2 ^ 31"
      by (simp only: eq)
    from less.hyps [OF dec p1 less.prems(2) p3 p4 p5, of ?m "out @ [?m]"]
    obtain m' out' where
      res: "waitLoop ?t step ?m (out @ [?m]) =
              Some (?t\<lparr>elapsed := seconds ?t, running := False\<rparr>, m', out')"
      and len: "int (length out') = int (length (out @ [?m])) +
              \<lceil>real_of_int (sint (seconds ?t) - sint (elapsed ?t)) / real_of_int ?s\<rceil>"
      by blast
    have la: "int (length (out @ [?m])) = int (length out) + 1"
      by simp
    from len [unfolded eq la] cs
    have "int (length out') = int (length out) +
        \<lceil>real_of_int (?T - ?e) / real_of_int ?s\<rceil>"
      by (simp only: add.assoc add.commute)
    with unfold tick res show ?thesis by simp
  qed
qed

text \<open>
  C7 (as amended). For every \<open>T > 0\<close> and step \<open>s > 0\<close> for which the last sum of the
  loop, \<open>s * ceil(T / s)\<close>, is at most \<open>INT_MAX = 2^31 - 1\<close> (so that no
  \<open>elapsed += s\<close> overflows; \<open>T + s - 1 \<le> INT_MAX\<close> is enough), \<open>start(T)\<close> followed by the
  loop \<open>while (!isFinished()) tick(s)\<close> ends: it makes exactly \<open>ceil(T / s)\<close> iterations
  (one progress line each) and leaves the timer finished with \<open>elapsed = T\<close>.
\<close>

theorem C7_wait_loop_iterations:
  assumes "0 < sint T" and "0 < sint step"
    and "sint step * \<lceil>real_of_int (sint T) / real_of_int (sint step)\<rceil> < 2 ^ 31"
  shows "\<exists>t0 t' m out.
           Timer_start t T = (None, t0) \<and>
           waitLoop t0 step 0 [] = Some (t', m, out) \<and>
           length out = nat \<lceil>real_of_int (sint T) / real_of_int (sint step)\<rceil> \<and>
           Timer_isFinished t' \<and> elapsed t' = T"
proof -
  let ?t0 = "t\<lparr>seconds := T, elapsed := 0, running := True\<rparr>"
  from assms have st: "Timer_start t T = (None, ?t0)"
    by (simp add: Timer_start_def)
  have "\<exists>m' out'. waitLoop ?t0 step 0 [] =
            Some (?t0\<lparr>elapsed := seconds ?t0, running := False\<rparr>, m', out') \<and>
          int (length out') = int (length ([]::cint list)) +
            \<lceil>real_of_int (sint (seconds ?t0) - sint (elapsed ?t0)) / real_of_int (sint step)\<rceil>"
    using assms by (intro waitLoop_running_terminates) simp_all
  then obtain m' out' where
    res: "waitLoop ?t0 step 0 [] = Some (?t0\<lparr>elapsed := seconds ?t0, running := False\<rparr>, m', out')"
    and len: "int (length out') = \<lceil>real_of_int (sint T) / real_of_int (sint step)\<rceil>"
    by auto
  from len have "length out' = nat \<lceil>real_of_int (sint T) / real_of_int (sint step)\<rceil>"
    by linarith
  moreover from assms have "Timer_isFinished (?t0\<lparr>elapsed := seconds ?t0, running := False\<rparr>)"
    by (simp add: Timer_isFinished_def)
  ultimately show ?thesis using st res by auto
qed

text \<open>
  C7, at the constants of \<open>cookChickenSoup\<close>: 30 minutes in steps of 5 minutes are 6
  iterations.
\<close>

theorem C7_wait_loop_iterations_witness:
  "\<exists>t0 t' m out.
     Timer_start Timer_default 1800 = (None, t0) \<and>
     waitLoop t0 300 0 [] = Some (t', m, out) \<and>
     length out = 6 \<and> Timer_isFinished t' \<and> elapsed t' = 1800"
proof -
  have a: "0 < sint (1800::cint)" and b: "0 < sint (300::cint)" by simp_all
  have c: "sint (300::cint) * \<lceil>real_of_int (sint (1800::cint)) / real_of_int (sint (300::cint))\<rceil>
             < 2 ^ 31"
    by simp
  have n: "nat \<lceil>real_of_int (sint (1800::cint)) / real_of_int (sint (300::cint))\<rceil> = 6"
    by simp
  from C7_wait_loop_iterations [OF a b c, of Timer_default, unfolded n] show ?thesis .
qed

text \<open>
  Where the sum overflows the loop need not end. With \<open>seconds = 2147483647\<close> (odd) and an
  even step, \<open>elapsed\<close> starts at 0 and stays even through every wrap-around, so it never
  reaches \<open>seconds\<close> and the timer keeps running.
\<close>

lemma even_cint_not_max: "even (w::cint) \<Longrightarrow> sint w < 2147483647"
proof (rule ccontr)
  assume ev: "even w" and "\<not> sint w < 2147483647"
  with sint_cint_range [of w] have "sint w = 2147483647" by simp
  then have "word_of_int (sint w) = (word_of_int 2147483647 :: cint)" by simp
  then have "w = 2147483647" by simp
  with ev show False by simp
qed

lemma Timer_tick_even_keeps_running:
  assumes "running t" and "seconds t = 2147483647" and "even (elapsed t)" and "even step"
  shows "running (Timer_tick t step) \<and> seconds (Timer_tick t step) = 2147483647 \<and>
         even (elapsed (Timer_tick t step))"
proof -
  from assms have "even (elapsed t + step)" by simp
  from even_cint_not_max [OF this] assms show ?thesis
    by (simp add: Timer_tick_def Let_def)
qed

lemma waitLoop_even_diverges:
  assumes "waitLoop t step m out = Some r"
  shows "\<not> (running t \<and> seconds t = 2147483647 \<and> even (elapsed t) \<and> even step)"
proof (rule waitLoop.raw_induct [where P = "\<lambda>t step m out r.
        \<not> (running t \<and> seconds t = 2147483647 \<and> even (elapsed t) \<and> even step)", OF _ assms])
  fix loop :: "Timer \<Rightarrow> cint \<Rightarrow> cint \<Rightarrow> cint list \<Rightarrow> (Timer \<times> cint \<times> cint list) option"
    and t step m out r
  assume IH: "\<And>t step m out r. loop t step m out = Some r \<Longrightarrow>
      \<not> (running t \<and> seconds t = 2147483647 \<and> even (elapsed t) \<and> even step)"
    and body: "(if Timer_isFinished t then Some (t, m, out)
      else let t' = Timer_tick t step;
               minutesPassed' = m + word_of_int (sint step sdiv 60)
           in loop t' step minutesPassed' (out @ [minutesPassed'])) = Some r"
  show "\<not> (running t \<and> seconds t = 2147483647 \<and> even (elapsed t) \<and> even step)"
  proof
    assume inv: "running t \<and> seconds t = 2147483647 \<and> even (elapsed t) \<and> even step"
    then have nf: "\<not> Timer_isFinished t" by (simp add: Timer_isFinished_def)
    from inv Timer_tick_even_keeps_running [of t step]
    have inv': "running (Timer_tick t step) \<and> seconds (Timer_tick t step) = 2147483647 \<and>
        even (elapsed (Timer_tick t step)) \<and> even step"
      by simp
    from body nf
    have "loop (Timer_tick t step) step (m + word_of_int (sint step sdiv 60))
            (out @ [m + word_of_int (sint step sdiv 60)]) = Some r"
      by (simp add: Let_def)
    from IH [OF this] inv' show False by simp
  qed
qed

text \<open>
  C7 as stated fails where \<open>elapsed += s\<close> overflows. With \<open>T = 2147483647\<close> and
  \<open>s = 2147483646\<close>, \<open>ceil(T / s) = 2\<close>; the second tick wraps \<open>elapsed\<close> to \<open>-4\<close>, the
  timer is still running and not finished after two ticks, and the loop does not end.
\<close>

theorem C7_overflow_no_finish_after_ceil:
  "nat \<lceil>real_of_int (sint (2147483647::cint)) / real_of_int (sint (2147483646::cint))\<rceil> = 2 \<and>
   Timer_start Timer_default 2147483647 =
     (None, \<lparr>seconds = 2147483647, running = True, elapsed = 0, id_timer = 0\<rparr>) \<and>
   Timer_ticks \<lparr>seconds = 2147483647, running = True, elapsed = 0, id_timer = 0\<rparr>
       [2147483646, 2147483646] =
     \<lparr>seconds = 2147483647, running = True, elapsed = - 4, id_timer = 0\<rparr> \<and>
   \<not> Timer_isFinished \<lparr>seconds = 2147483647, running = True, elapsed = - 4, id_timer = 0\<rparr> \<and>
   waitLoop \<lparr>seconds = 2147483647, running = True, elapsed = 0, id_timer = 0\<rparr> 2147483646 0 [] =
     None"
proof -
  let ?t0 = "\<lparr>seconds = 2147483647, running = True, elapsed = 0, id_timer = 0\<rparr>"
  have "waitLoop ?t0 2147483646 0 [] = None"
  proof (cases "waitLoop ?t0 2147483646 0 []")
    case None
    then show ?thesis .
  next
    case (Some r)
    from waitLoop_even_diverges [OF Some] show ?thesis by simp
  qed
  then show ?thesis
    by (simp add: Timer_start_def Timer_default_def Timer_ctor_def Timer_tick_def
        Timer_isFinished_def Let_def)
qed

section \<open>TemperatureProfile: negative elapsed time\<close>

text \<open>
  C2 as stated fails: the default warm-up profile (20 to 180 degrees in 600 s, gradual)
  at \<open>elapsed = -300\<close> gives \<open>20 + 160 * (-300 / 600) = -60\<close> (every step exact in doubles),
  not the start temperature 20.
\<close>

theorem C2_currentTemp_negative_not_clamped:
  "TemperatureProfile_currentTemp (TemperatureProfile_ctor (Finite 20) (Finite 180) 600 True) (- 300)
     = Finite (- 60) \<and>
   TemperatureProfile_currentTemp (TemperatureProfile_ctor (Finite 20) (Finite 180) 600 True) (- 300)
     \<noteq> startTemp (TemperatureProfile_ctor (Finite 20) (Finite 180) 600 True)"
  by (simp add: TemperatureProfile_currentTemp_def TemperatureProfile_ctor_def double_of_int_def
      dsub_def fl_numeral fl_neg_numeral fl_minus_half)

text \<open>
  C2 (as amended). \<open>currentTemp\<close> has no error path (it divides by \<open>duration\<close> only where
  \<open>duration > 0\<close>), and it does not clamp: for a negative elapsed time it returns
  \<open>targetTemp\<close> when the profile is not gradual or \<open>duration \<le> 0\<close>, and otherwise the value
  of the interpolation \<open>startTemp + (targetTemp - startTemp) * (elapsed / duration)\<close>, in
  double arithmetic, at that negative elapsed time.
\<close>

theorem C2_currentTemp_negative_elapsed:
  assumes "sint e < 0"
  shows "TemperatureProfile_currentTemp p e =
           (if gradual p \<and> 0 < sint (duration p)
            then dadd (startTemp p)
                   (dmul (dsub (targetTemp p) (startTemp p))
                      (ddiv (double_of_int e) (double_of_int (duration p))))
            else targetTemp p)"
  using assms by (auto simp add: TemperatureProfile_currentTemp_def Let_def)

theorem C2_currentTemp_negative_elapsed_witness:
  "sint (- 300 :: cint) < 0 \<and>
   TemperatureProfile_currentTemp (TemperatureProfile_ctor (Finite 20) (Finite 180) 600 True) (- 300)
     = Finite (- 60)"
proof -
  have h: "sint (- 300 :: cint) < 0" by simp
  from C2_currentTemp_negative_elapsed [OF h, of "TemperatureProfile_ctor (Finite 20) (Finite 180) 600 True"] h
  show ?thesis
    by (simp add: TemperatureProfile_ctor_def double_of_int_def
      dsub_def fl_numeral fl_neg_numeral fl_minus_half)
qed

section \<open>Oven: a bake cycle\<close>

text \<open>
  C6. A fresh oven (\<open>Oven()\<close>: temperature 0, off, door closed, idle bake timer) after
  \<open>preheat(180, 10)\<close> and \<open>tick(600)\<close> has temperature 180 and is on; after
  \<open>setTimerMinutes(1)\<close> and \<open>tick(60)\<close> it is off. Neither \<open>preheat\<close> nor
  \<open>setTimerMinutes\<close> throws.
\<close>

theorem C6_oven_preheat_then_bake:
  "(case Oven_preheat Oven_default (Finite 180) 10 of (e1, ov1) \<Rightarrow>
      let ov2 = Oven_tick ov1 600 in
      e1 = None \<and> Oven_getTemperature ov2 = Finite 180 \<and> Oven_isOn ov2 \<and>
      (case Oven_setTimerMinutes ov2 1 of (e3, ov3) \<Rightarrow>
         e3 = None \<and> \<not> Oven_isOn (Oven_tick ov3 60)))"
  by (simp add: Oven_preheat_def Oven_default_def Oven_ctor_def Oven_tick_def Oven_getTemperature_def
      Oven_isOn_def Oven_setTimerMinutes_def Timer_start_def Timer_tick_def Timer_isFinished_def
      Timer_default_def Timer_ctor_def TemperatureProfile_default_def TemperatureProfile_ctor_def
      TemperatureProfile_reset_def TemperatureProfile_currentTemp_def Oven_turnOff_def Let_def
      dgt_def)

theorem C6_oven_preheat_then_bake_witness:
  "fst (Oven_preheat Oven_default (Finite 180) 10) = None \<and>
   Oven_getTemperature (Oven_tick (snd (Oven_preheat Oven_default (Finite 180) 10)) 600) =
     Finite 180 \<and>
   Oven_isOn (Oven_tick (snd (Oven_preheat Oven_default (Finite 180) 10)) 600) \<and>
   \<not> Oven_isOn (Oven_tick (snd (Oven_setTimerMinutes
         (Oven_tick (snd (Oven_preheat Oven_default (Finite 180) 10)) 600) 1)) 60)"
  using C6_oven_preheat_then_bake
  by (simp add: Let_def split: prod.splits)

text \<open>
  C10. \<open>turnOff()\<close> sets the temperature to 0 and the oven off; a \<open>tick\<close> that finds the
  oven on and leaves it off (the bake timer finished) leaves the temperature 0; and no
  other method turns an oven that is on off.
\<close>

theorem C10_off_resets_temperature:
  "Oven_getTemperature (Oven_turnOff ov) = Finite 0 \<and> \<not> Oven_isOn (Oven_turnOff ov) \<and>
   (Oven_isOn ov \<and> \<not> Oven_isOn (Oven_tick ov d) \<longrightarrow>
      Oven_getTemperature (Oven_tick ov d) = Finite 0) \<and>
   (Oven_isOn ov \<longrightarrow>
      Oven_isOn (snd (Oven_preheat ov t w)) \<and> Oven_isOn (snd (Oven_setTimerMinutes ov m)) \<and>
      Oven_isOn (Oven_closeDoor ov) \<and> Oven_isOn (Oven_openDoor ov))"
  by (auto simp add: Oven_getTemperature_def Oven_isOn_def Oven_turnOff_def Oven_tick_def Let_def
      Oven_preheat_def Oven_setTimerMinutes_def Oven_closeDoor_def Oven_openDoor_def
      split: prod.splits)

text \<open>
  C10, at the end of the bake cycle of C6: the oven is on before the last tick, off after
  it, and its temperature is then 0, not 180.
\<close>

theorem C10_off_resets_temperature_witness:
  "Oven_isOn (snd (Oven_setTimerMinutes
      (Oven_tick (snd (Oven_preheat Oven_default (Finite 180) 10)) 600) 1)) \<and>
   \<not> Oven_isOn (Oven_tick (snd (Oven_setTimerMinutes
        (Oven_tick (snd (Oven_preheat Oven_default (Finite 180) 10)) 600) 1)) 60) \<and>
   Oven_getTemperature (Oven_tick (snd (Oven_setTimerMinutes
        (Oven_tick (snd (Oven_preheat Oven_default (Finite 180) 10)) 600) 1)) 60) = Finite 0"
proof -
  let ?ov = "snd (Oven_setTimerMinutes
      (Oven_tick (snd (Oven_preheat Oven_default (Finite 180) 10)) 600) 1)"
  have a: "Oven_isOn ?ov"
    by (simp add: Oven_preheat_def Oven_default_def Oven_ctor_def Oven_tick_def
      Oven_isOn_def Oven_setTimerMinutes_def Timer_start_def Timer_tick_def Timer_isFinished_def
      Timer_default_def Timer_ctor_def TemperatureProfile_default_def TemperatureProfile_ctor_def
      TemperatureProfile_reset_def TemperatureProfile_currentTemp_def Oven_turnOff_def Let_def
      dgt_def)
  have b: "\<not> Oven_isOn (Oven_tick ?ov 60)"
    by (simp add: Oven_preheat_def Oven_default_def Oven_ctor_def Oven_tick_def
      Oven_isOn_def Oven_setTimerMinutes_def Timer_start_def Timer_tick_def Timer_isFinished_def
      Timer_default_def Timer_ctor_def TemperatureProfile_default_def TemperatureProfile_ctor_def
      TemperatureProfile_reset_def TemperatureProfile_currentTemp_def Oven_turnOff_def Let_def
      dgt_def)
  from C10_off_resets_temperature [of ?ov 60] a b show ?thesis
    by blast
qed

section \<open>Pan and Pot: failed use\<close>

text \<open>
  C9. On a pan that is not usable (\<open>isAvailable()\<close> false: dirty, unavailable or
  durability \<open>\<le> 0\<close>) \<open>heatUp()\<close> throws \<open>ToolNotAvailableException\<close> and the pan is
  unchanged in every field; the same for \<open>startBoil()\<close> on a pot, and for \<open>useTool()\<close>
  on any tool.
\<close>

theorem C9_failed_heatUp_startBoil_no_effect:
  "(\<not> KitchenTool_isAvailable pan \<longrightarrow> Pan_heatUp pan = (Some ToolNotAvailableException, pan)) \<and>
   (\<not> KitchenTool_isAvailable pot \<longrightarrow> Pot_startBoil pot = (Some ToolNotAvailableException, pot)) \<and>
   (\<not> KitchenTool_isAvailable t \<longrightarrow> KitchenTool_useTool t = (Some ToolNotAvailableException, t))"
  by (auto simp add: Pan_heatUp_def Pot_startBoil_def KitchenTool_useTool_def KitchenTool_isAvailable_def)

theorem C9_failed_heatUp_startBoil_no_effect_witness:
  "\<not> KitchenTool_isAvailable
       (KitchenTool_cleanTool (KitchenTool_breakTool (Pan_ctor ''pan'' (Finite 24) True False))) \<and>
   Pan_heatUp (KitchenTool_cleanTool (KitchenTool_breakTool (Pan_ctor ''pan'' (Finite 24) True False))) =
     (Some ToolNotAvailableException,
      KitchenTool_cleanTool (KitchenTool_breakTool (Pan_ctor ''pan'' (Finite 24) True False))) \<and>
   \<not> KitchenTool_isAvailable ((Pot_ctor ''pot'' (Finite 2) True False)\<lparr>clean := False\<rparr>) \<and>
   Pot_startBoil ((Pot_ctor ''pot'' (Finite 2) True False)\<lparr>clean := False\<rparr>) =
     (Some ToolNotAvailableException, (Pot_ctor ''pot'' (Finite 2) True False)\<lparr>clean := False\<rparr>)"
proof -
  let ?pan = "KitchenTool_cleanTool (KitchenTool_breakTool (Pan_ctor ''pan'' (Finite 24) True False))"
  let ?pot = "(Pot_ctor ''pot'' (Finite 2) True False)\<lparr>clean := False\<rparr>"
  have a: "\<not> KitchenTool_isAvailable ?pan"
    by (simp add: KitchenTool_isAvailable_def KitchenTool_cleanTool_def KitchenTool_breakTool_def
        Pan_ctor_def)
  have b: "\<not> KitchenTool_isAvailable ?pot"
    by (simp add: KitchenTool_isAvailable_def Pot_ctor_def)
  from C9_failed_heatUp_startBoil_no_effect [of ?pan ?pot ?pot] a b show ?thesis
    by blast
qed

section \<open>Chicken soup: the capacity check\<close>

text \<open>
  C8. \<open>canBoil(liters)\<close> is \<open>liters <= volume\<close>, so a pot of volume 1 rejects 1.5; and
  \<open>cookChickenSoup\<close> with pot, stove and timer present and a pot that cannot boil 1.5
  litres throws \<open>NotEnoughIngredientException\<close> with the whole store unchanged, the
  chicken and the vegetables included.
\<close>

theorem C8_canBoil_checked_before_consumption:
  "(Pot_canBoil p liters \<longleftrightarrow> dle liters (volume p)) \<and>
   (volume p = Finite 1 \<longrightarrow> \<not> Pot_canBoil p (Finite 1.5)) \<and>
   (use_pot dish = Some a \<and> pots k a = Some p \<and> use_stove dish \<noteq> None \<and>
    use_boilTimer dish \<noteq> None \<and> \<not> Pot_canBoil p (Finite 1.5) \<longrightarrow>
      Cook_cookChickenSoup dish k = Some (Some NotEnoughIngredientException, k))"
  by (auto simp add: Pot_canBoil_def Cook_cookChickenSoup_def Kitchen_canBoil_def)

theorem C8_canBoil_checked_before_consumption_witness:
  "\<not> Pot_canBoil (Pot_ctor ''pot'' (Finite 1) True False) (Finite 1.5) \<and>
   Cook_cookChickenSoup soup_dish (soup_kitchen (Finite 1)) =
     Some (Some NotEnoughIngredientException, soup_kitchen (Finite 1))"
proof -
  let ?p = "Pot_ctor ''pot'' (Finite 1) True False"
  have v: "volume ?p = Finite 1" by (simp add: Pot_ctor_def)
  have h: "use_pot soup_dish = Some 0 \<and> pots (soup_kitchen (Finite 1)) 0 = Some ?p \<and>
           use_stove soup_dish \<noteq> None \<and> use_boilTimer soup_dish \<noteq> None"
    by (simp add: soup_dish_def soup_kitchen_def)
  from C8_canBoil_checked_before_consumption [of ?p "Finite 1.5" soup_dish 0 "soup_kitchen (Finite 1)"] v h
  show ?thesis by blast
qed

end
